theory Spec2Isabelle
  imports Complex_Main "HOL-Library.AList" "HOL-Library.Sublist"
begin

text \<open>
  A shallow embedding of the rule logic of \<open>energy-management/energy_system.py\<close>
  (class \<open>EnergyManagementSystem\<close>) and of arming and disarming in
  \<open>security/security_system.py\<close> (class \<open>SecuritySystem\<close>).

  Each method becomes a function on an explicit state. A method whose body is wrapped
  in \<open>try ... except Exception\<close> comes as two functions: \<open>f_body\<close> returns the exception
  raised, if any, with the state reached, and \<open>f\<close> logs it as the \<open>except\<close> clause does.
  The clock is an argument: \<open>now\<close> is what \<open>datetime.now()\<close> returns during one call
  of a handler. The database, the MQTT client and the sklearn models are external;
  the model records what is handed to them and lets each call raise or not.
  The handlers of weather and device status messages, the reports and the main loop
  are not part of the model.
\<close>

section \<open>Values shared by the scripts\<close>

text \<open>
  Exceptions of the Python code, as values. \<open>AttributeError n\<close> is what a call
  \<open>self.n(...)\<close> raises when the class defines no method \<open>n\<close>; \<open>KeyError k\<close> is a
  failed dictionary subscript, \<open>IndexError\<close> a failed list subscript;
  \<open>ValueError\<close> is what \<open>datetime.strptime\<close> raises;
  \<open>ExternalError\<close> stands for whatever an external collaborator (sqlite3, the MQTT
  client, an sklearn model) raises.
\<close>

datatype error =
    AttributeError string
  | KeyError string
  | ValueError string
  | IndexError string
  | ExternalError string

text \<open>
  JSON values of the published dictionaries. \<open>JIso t\<close> is the string
  \<open>t.isoformat()\<close> of the instant \<open>t\<close>. A Python number is the real it denotes; the
  arithmetic on numbers is binary64 arithmetic (section on floating point below).
\<close>

type_synonym datetime = nat
  \<comment> \<open>a naive local \<open>datetime\<close>: microseconds since midnight of a fixed day\<close>

type_synonym time = nat
  \<comment> \<open>a \<open>datetime.time\<close>: microseconds since midnight; Python orders \<open>time\<close> values by
      (hour, minute, second, microsecond), which is the order of this number\<close>

datatype jvalue = JNull | JBool bool | JNum real | JStr string | JIso datetime

type_synonym payload = "(string \<times> jvalue) list"
  \<comment> \<open>a dict literal handed to \<open>json.dumps\<close>: its keys in order, with their values\<close>

datatype level = INFO | WARNING | ERROR | CRITICAL

datatype logarg = AStr string | ANum real | AErr error

datatype log_entry = Log level string "logarg list"
  \<comment> \<open>a logger call: level, the f-string with \<open>{}\<close> for each interpolation, the
      interpolated values\<close>

text \<open>
  Faults of the external collaborators. \<open>db_fault\<close> says which
  \<open>cursor.execute\<close>/\<open>conn.commit\<close> raises (by table), \<open>mqtt_fault\<close> says which
  \<open>mqtt_client.publish\<close> raises (by topic and payload).
\<close>

record io =
  db_fault :: "string \<Rightarrow> error option"
  mqtt_fault :: "string \<Rightarrow> payload \<Rightarrow> error option"

definition no_faults :: io where
  "no_faults = \<lparr>db_fault = (\<lambda>_. None), mqtt_fault = (\<lambda>_ _. None)\<rparr>"

section \<open>Times of day\<close>

definition time_hms :: "nat \<Rightarrow> nat \<Rightarrow> nat \<Rightarrow> nat \<Rightarrow> time" where
  "time_hms h m s us = ((h * 60 + m) * 60 + s) * 1000000 + us"

definition dt_time :: "datetime \<Rightarrow> time" where
  \<comment> \<open>\<open>datetime.time()\<close>\<close>
  "dt_time now = now mod 86400000000"

definition digit_val :: "char \<Rightarrow> nat option" where
  \<comment> \<open>the value of an ASCII digit, by its character code\<close>
  "digit_val c =
     (let n = (of_char c :: nat) in if 48 \<le> n \<and> n \<le> 57 then Some (n - 48) else None)"

text \<open>
  \<open>datetime.strptime(s, '%H:%M').time()\<close>. The directive \<open>%H\<close> is the regular
  expression \<open>2[0-3]|[0-1]\d|\d\<close>, \<open>%M\<close> is \<open>[0-5]\d|\d\<close>; a string that does not
  match, or that has data left after the match, raises \<open>ValueError\<close>.
\<close>

fun parse_H :: "string \<Rightarrow> (nat \<times> string) option" where
  "parse_H [] = None"
| "parse_H [a] = (case digit_val a of None \<Rightarrow> None | Some x \<Rightarrow> Some (x, []))"
| "parse_H (a # b # r) =
     (case digit_val a of
        None \<Rightarrow> None
      | Some x \<Rightarrow>
          (case digit_val b of
             None \<Rightarrow> Some (x, b # r)
           | Some y \<Rightarrow>
               if x = 2 \<and> y \<le> 3 then Some (20 + y, r)
               else if x \<le> 1 then Some (10 * x + y, r)
               else Some (x, b # r)))"

fun parse_M :: "string \<Rightarrow> (nat \<times> string) option" where
  "parse_M [] = None"
| "parse_M [a] = (case digit_val a of None \<Rightarrow> None | Some x \<Rightarrow> Some (x, []))"
| "parse_M (a # b # r) =
     (case digit_val a of
        None \<Rightarrow> None
      | Some x \<Rightarrow>
          (case digit_val b of
             None \<Rightarrow> Some (x, b # r)
           | Some y \<Rightarrow> if x \<le> 5 then Some (10 * x + y, r) else Some (x, b # r)))"

definition strptime_HM :: "string \<Rightarrow> error + time" where
  "strptime_HM s =
     (case parse_H s of
        None \<Rightarrow> Inl (ValueError ''does not match format'')
      | Some (h, r) \<Rightarrow>
          (case r of
             [] \<Rightarrow> Inl (ValueError ''does not match format'')
           | c # r' \<Rightarrow>
               if c = CHR '':'' then
                 (case parse_M r' of
                    None \<Rightarrow> Inl (ValueError ''does not match format'')
                  | Some (m, rest) \<Rightarrow>
                      if rest = [] then Inr (time_hms h m 0 0)
                      else Inl (ValueError ''unconverted data remains''))
               else Inl (ValueError ''does not match format'')))"

section \<open>Floating point\<close>

text \<open>
  The numbers of the code are binary64 floats (the integers of a JSON message or of
  the configuration, below \<open>2^53\<close> in magnitude, are among them). A float is
  represented by the real it denotes, comparisons are the comparisons of reals, and
  each arithmetic operation rounds its exact result to the nearest binary64 value,
  ties to even. Infinities and NaN are not represented: a result beyond the binary64
  range is outside the model.

  \<open>rne\<close> rounds a real to the nearest integer, ties to even. \<open>ilog2 n x\<close> is the
  binary exponent \<open>\<lfloor>log\<^sub>2 x\<rfloor>\<close> of a positive \<open>x\<close>, found in at most \<open>n\<close> halvings or
  doublings; 1100 steps cover the exponents of binary64. \<open>b64 x\<close> keeps 53
  significant bits of \<open>x\<close> (fewer below \<open>2^-1022\<close>, where the spacing stays
  \<open>2^-1074\<close>).
\<close>

definition rne :: "real \<Rightarrow> int" where
  "rne x =
     (let f = \<lfloor>x\<rfloor>; d = x - of_int f
      in if d < 1 / 2 then f else if 1 / 2 < d then f + 1 else if even f then f else f + 1)"

fun ilog2 :: "nat \<Rightarrow> real \<Rightarrow> int" where
  "ilog2 0 x = 0"
| "ilog2 (Suc n) x =
     (if 2 \<le> x then ilog2 n (x / 2) + 1 else if x < 1 then ilog2 n (x * 2) - 1 else 0)"

definition b64 :: "real \<Rightarrow> real" where
  "b64 x =
     (if x = 0 then 0
      else
        let e = max (ilog2 1100 \<bar>x\<bar>) (- 1022);
            u = 2 powi (e - 52)
        in of_int (rne (x / u)) * u)"

definition fadd :: "real \<Rightarrow> real \<Rightarrow> real" where
  "fadd x y = b64 (x + y)"

definition fsub :: "real \<Rightarrow> real \<Rightarrow> real" where
  "fsub x y = b64 (x - y)"

definition fmul :: "real \<Rightarrow> real \<Rightarrow> real" where
  "fmul x y = b64 (x * y)"

definition fdiv :: "real \<Rightarrow> real \<Rightarrow> real" where
  "fdiv x y = b64 (x / y)"

text \<open>The float literals \<open>0.8\<close> and \<open>0.7\<close> of the source.\<close>

definition lit_0_8 :: real where
  "lit_0_8 = b64 (8 / 10)"

definition lit_0_7 :: real where
  "lit_0_7 = b64 (7 / 10)"

section \<open>The energy management configuration\<close>

text \<open>
  \<open>self.config\<close> of \<open>EnergyManagementSystem\<close>, typed: the entries of the device
  catalogue carry \<open>id\<close>, \<open>power_rating\<close>, \<open>room\<close> and \<open>priority\<close> (as every entry of
  the default configuration does), \<open>always_on\<close> and \<open>duration\<close> may be absent.
  \<open>devices\<close> is the dictionary of device lists by category, in its order.
\<close>

record device =
  dev_id :: string
  power_rating :: real
  room :: string
  priority :: int
  always_on :: "bool option"
  duration :: "nat option"

record period =
  p_start :: string
  p_end :: string

record config =
  devices :: "(string \<times> device list) list"
  peak_hours :: "period list"
  off_peak_hours :: "period list"
  peak_rate :: real
  off_peak_rate :: real
  normal_rate :: real
  high_usage_alert :: real
  topic_device_control :: string
  topic_alerts :: string

subsection \<open>\<open>is_peak_hour\<close>, \<open>is_off_peak_hour\<close>\<close>

fun is_peak_hour_loop :: "period list \<Rightarrow> time \<Rightarrow> error + bool" where
  "is_peak_hour_loop [] current_time = Inr False"
| "is_peak_hour_loop (peak_period # ps) current_time =
     (case strptime_HM (p_start peak_period) of
        Inl e \<Rightarrow> Inl e
      | Inr start \<Rightarrow>
          (case strptime_HM (p_end peak_period) of
             Inl e \<Rightarrow> Inl e
           | Inr end' \<Rightarrow>
               if start \<le> current_time \<and> current_time \<le> end' then Inr True
               else is_peak_hour_loop ps current_time))"

definition is_peak_hour :: "config \<Rightarrow> datetime \<Rightarrow> error + bool" where
  "is_peak_hour cfg now = is_peak_hour_loop (peak_hours cfg) (dt_time now)"

fun is_off_peak_hour_loop :: "period list \<Rightarrow> time \<Rightarrow> error + bool" where
  "is_off_peak_hour_loop [] current_time = Inr False"
| "is_off_peak_hour_loop (off_peak_period # ps) current_time =
     (case strptime_HM (p_start off_peak_period) of
        Inl e \<Rightarrow> Inl e
      | Inr start \<Rightarrow>
          (case strptime_HM (p_end off_peak_period) of
             Inl e \<Rightarrow> Inl e
           | Inr end' \<Rightarrow>
               if start \<le> current_time \<or> current_time \<le> end' then Inr True
               else is_off_peak_hour_loop ps current_time))"

definition is_off_peak_hour :: "config \<Rightarrow> datetime \<Rightarrow> error + bool" where
  "is_off_peak_hour cfg now = is_off_peak_hour_loop (off_peak_hours cfg) (dt_time now)"

text \<open>The default configuration of \<open>load_config\<close>.\<close>

definition mk_device :: "string \<Rightarrow> real \<Rightarrow> string \<Rightarrow> int \<Rightarrow> device" where
  "mk_device i p r q =
     \<lparr>dev_id = i, power_rating = p, room = r, priority = q, always_on = None, duration = None\<rparr>"

definition default_config :: config where
  "default_config =
     \<lparr>devices =
        [(''lights'',
          [mk_device ''hall_light'' 60 ''hall'' 3,
           mk_device ''kitchen_light'' 60 ''kitchen'' 2,
           mk_device ''living_room_light'' 100 ''living_room'' 2,
           mk_device ''bedroom_light'' 40 ''bedroom'' 1]),
         (''fans'',
          [mk_device ''hall_fan'' 75 ''hall'' 2,
           mk_device ''kitchen_fan'' 50 ''kitchen'' 1,
           mk_device ''living_room_fan'' 75 ''living_room'' 1,
           mk_device ''bedroom_fan'' 75 ''bedroom'' 1]),
         (''appliances'',
          [(mk_device ''refrigerator'' 150 ''kitchen'' 1)\<lparr>always_on := Some True\<rparr>,
           mk_device ''washing_machine'' 500 ''utility'' 3,
           mk_device ''air_conditioner'' 1500 ''living_room'' 2,
           mk_device ''water_heater'' 2000 ''utility'' 2])],
      peak_hours = [\<lparr>p_start = ''18:00'', p_end = ''22:00''\<rparr>],
      off_peak_hours = [\<lparr>p_start = ''22:00'', p_end = ''06:00''\<rparr>],
      peak_rate = 12.5,
      off_peak_rate = 8,
      normal_rate = 10,
      high_usage_alert = 2000,
      topic_device_control = ''energy/control'',
      topic_alerts = ''energy/alerts''\<rparr>"

section \<open>The state of \<open>EnergyManagementSystem\<close>\<close>

record reading =
  r_timestamp :: datetime
  r_power :: real
  r_voltage :: real
  r_current :: real

record history_entry =
  h_timestamp :: datetime
  h_device_id :: "string option"
  h_power :: real

record occupancy =
  occupancy_count :: int
  motion_detected :: bool
  temperature :: real
  o_timestamp :: datetime

text \<open>
  The decoded MQTT messages, typed; \<open>None\<close> is a key the message does not have
  (\<open>data.get\<close> then gives its default).
\<close>

record energy_message =
  m_timestamp :: "datetime option"
  m_device_id :: "string option"
  m_power_consumption :: "real option"
  m_voltage :: "real option"
  m_current :: "real option"

record occupancy_message =
  m_room :: "string option"
  m_occupancy_count :: "int option"
  m_motion_detected :: "bool option"
  m_temperature :: "real option"

datatype db_row =
    EnergyReadingRow datetime "string option" real real real
  | OccupancyRow "string option" int bool real
  | OptimizationLogRow string string real

text \<open>
  An entry of \<open>self.ml_models\<close>. What the sklearn and pandas code computes is left to
  the model object: \<open>decision_function\<close> and \<open>predict\<close> of the anomaly detector on
  one power value, and \<open>forecast\<close> for the feature building, scaling and prediction
  of \<open>predict_energy_consumption\<close> on the fetched rows and \<open>hours_ahead\<close>.
\<close>

record ml_model =
  decision_function :: "real \<Rightarrow> error + real"
  predict :: "real \<Rightarrow> error + int"
  forecast :: "(datetime \<times> real) list \<Rightarrow> nat \<Rightarrow> error + real list"

record state =
  current_readings :: "(string option \<times> reading) list"
  consumption_history :: "history_entry list"
  occupancy_sensors :: "(string option \<times> occupancy) list"
  ml_models :: "(string \<times> ml_model option) list"
  auto_optimization_enabled :: bool
  db :: "db_row list"
  outbox :: "(string \<times> payload) list"
  log :: "log_entry list"

text \<open>The fields as \<open>__init__\<close> leaves them (it resets \<open>ml_models\<close> to \<open>{}\<close>).\<close>

definition init_state :: state where
  "init_state =
     \<lparr>current_readings = [], consumption_history = [], occupancy_sensors = [],
      ml_models = [], auto_optimization_enabled = True, db = [], outbox = [], log = []\<rparr>"

subsection \<open>Logger, MQTT client, database\<close>

definition logger :: "log_entry \<Rightarrow> state \<Rightarrow> state" where
  "logger e st = st\<lparr>log := log st @ [e]\<rparr>"

definition mqtt_publish :: "io \<Rightarrow> string \<Rightarrow> payload \<Rightarrow> state \<Rightarrow> error option \<times> state" where
  "mqtt_publish env topic p st =
     (case mqtt_fault env topic p of
        Some e \<Rightarrow> (Some e, st)
      | None \<Rightarrow> (None, st\<lparr>outbox := outbox st @ [(topic, p)]\<rparr>))"

definition db_insert :: "io \<Rightarrow> string \<Rightarrow> db_row \<Rightarrow> state \<Rightarrow> error option \<times> state" where
  \<comment> \<open>\<open>cursor.execute("INSERT INTO <table> ...")\<close> followed by \<open>conn.commit()\<close>\<close>
  "db_insert env table row st =
     (case db_fault env table of
        Some e \<Rightarrow> (Some e, st)
      | None \<Rightarrow> (None, st\<lparr>db := db st @ [row]\<rparr>))"

definition undefined_method :: "string \<Rightarrow> state \<Rightarrow> (error + 'a) \<times> state" where
  \<comment> \<open>a call \<open>self.n(...)\<close> of a method that no class of the repository defines\<close>
  "undefined_method n st = (Inl (AttributeError n), st)"

subsection \<open>\<open>control_device\<close>, \<open>log_optimization\<close>\<close>

definition command_data :: "datetime \<Rightarrow> string \<Rightarrow> bool \<Rightarrow> payload" where
  "command_data now device_id state' =
     [(''device_id'', JStr device_id),
      (''command'', JStr (if state' then ''on'' else ''off'')),
      (''timestamp'', JIso now),
      (''source'', JStr ''energy_management'')]"

definition control_device :: "io \<Rightarrow> config \<Rightarrow> datetime \<Rightarrow> string \<Rightarrow> bool \<Rightarrow> state \<Rightarrow> state" where
  "control_device env cfg now device_id state' st =
     (case mqtt_publish env (topic_device_control cfg) (command_data now device_id state') st of
        (Some e, st1) \<Rightarrow> logger (Log ERROR ''Device control error: {}'' [AErr e]) st1
      | (None, st1) \<Rightarrow>
          logger (Log INFO ''Device control: {} -> {}''
                    [AStr device_id, AStr (if state' then ''ON'' else ''OFF'')]) st1)"

definition log_optimization :: "io \<Rightarrow> string \<Rightarrow> string \<Rightarrow> string \<Rightarrow> state \<Rightarrow> state" where
  "log_optimization env optimization_type device_id description st =
     (case db_insert env ''optimization_logs''
             (OptimizationLogRow optimization_type device_id 0) st of
        (Some e, st1) \<Rightarrow> logger (Log ERROR ''Optimization logging error: {}'' [AErr e]) st1
      | (None, st1) \<Rightarrow>
          logger (Log INFO ''Optimization logged: {} - {} - {}''
                    [AStr optimization_type, AStr device_id, AStr description]) st1)"

subsection \<open>\<open>optimize_load_balancing\<close>\<close>

definition total_power :: "state \<Rightarrow> real" where
  \<comment> \<open>\<open>sum(reading.get('power', 0) for reading in self.current_readings.values())\<close>\<close>
  "total_power st = foldl fadd 0 (map (\<lambda>kv. r_power (snd kv)) (current_readings st))"

text \<open>
  The loop over the devices to shed. \<open>is_device_on\<close> and
  \<open>schedule_device_restoration\<close> are called and defined nowhere.
\<close>

fun shed_loop ::
  "io \<Rightarrow> config \<Rightarrow> datetime \<Rightarrow> real \<Rightarrow> device list \<Rightarrow> real \<Rightarrow> state \<Rightarrow> error option \<times> state"
where
  "shed_loop env cfg now load_to_reduce [] reduced_load st = (None, st)"
| "shed_loop env cfg now load_to_reduce (device # ds) reduced_load st =
     (if reduced_load \<ge> load_to_reduce then (None, st)
      else
        let device_power = power_rating device in
        case (undefined_method ''is_device_on'' st :: (error + bool) \<times> state) of
          (Inl e, st1) \<Rightarrow> (Some e, st1)
        | (Inr on, st1) \<Rightarrow>
            if on then
              let st2 = control_device env cfg now (dev_id device) False st1;
                  st3 = log_optimization env ''load_balancing'' (dev_id device)
                          ''reduced_load_{}W'' st2
              in case (undefined_method ''schedule_device_restoration'' st3
                         :: (error + unit) \<times> state) of
                   (Inl e, st4) \<Rightarrow> (Some e, st4)
                 | (Inr _, st4) \<Rightarrow>
                     shed_loop env cfg now load_to_reduce ds (fadd reduced_load device_power) st4
            else shed_loop env cfg now load_to_reduce ds reduced_load st1)"

definition optimize_load_balancing_body ::
  "io \<Rightarrow> config \<Rightarrow> datetime \<Rightarrow> state \<Rightarrow> error option \<times> state"
where
  "optimize_load_balancing_body env cfg now st =
     (let current_total_load = total_power st;
          max_safe_load = high_usage_alert cfg
      in if current_total_load > fmul max_safe_load lit_0_8 then
           let st1 = logger (Log INFO ''High load detected: {}W, initiating load balancing''
                               [ANum current_total_load]) st
           in case (undefined_method ''get_non_essential_devices'' st1
                      :: (error + device list) \<times> state) of
                (Inl e, st2) \<Rightarrow> (Some e, st2)
              | (Inr non_essential_devices, st2) \<Rightarrow>
                  shed_loop env cfg now
                    (fsub current_total_load (fmul max_safe_load lit_0_7))
                    (sort_key (\<lambda>x. - priority x) non_essential_devices) 0 st2
         else (None, st))"

definition optimize_load_balancing :: "io \<Rightarrow> config \<Rightarrow> datetime \<Rightarrow> state \<Rightarrow> state" where
  "optimize_load_balancing env cfg now st =
     (case optimize_load_balancing_body env cfg now st of
        (None, st') \<Rightarrow> st'
      | (Some e, st') \<Rightarrow>
          logger (Log ERROR ''Load balancing optimization error: {}'' [AErr e]) st')"

subsection \<open>\<open>optimize_cost_efficiency\<close>\<close>

definition config_devices :: "config \<Rightarrow> string \<Rightarrow> error + device list" where
  \<comment> \<open>\<open>self.config['devices'][category]\<close>\<close>
  "config_devices cfg category =
     (case map_of (devices cfg) category of
        None \<Rightarrow> Inl (KeyError category)
      | Some ds \<Rightarrow> Inr ds)"

definition get_always_on :: "device \<Rightarrow> bool" where
  \<comment> \<open>\<open>device.get('always_on', False)\<close>\<close>
  "get_always_on device = (case always_on device of None \<Rightarrow> False | Some b \<Rightarrow> b)"

text \<open>
  The loop over the appliances during peak hours. In
  \<open>self.schedule_device_restoration(device['id'], self.get_off_peak_delay())\<close> the method
  is looked up before its arguments are evaluated, so the call fails on
  \<open>schedule_device_restoration\<close> before \<open>get_off_peak_delay\<close> is reached.
\<close>

fun defer_loop :: "io \<Rightarrow> config \<Rightarrow> datetime \<Rightarrow> device list \<Rightarrow> state \<Rightarrow> error option \<times> state" where
  "defer_loop env cfg now [] st = (None, st)"
| "defer_loop env cfg now (device # ds) st =
     (if \<not> get_always_on device \<and> priority device \<ge> 3 then
        case (undefined_method ''is_device_on'' st :: (error + bool) \<times> state) of
          (Inl e, st1) \<Rightarrow> (Some e, st1)
        | (Inr on, st1) \<Rightarrow>
            if on then
              case (undefined_method ''can_defer_device'' st1 :: (error + bool) \<times> state) of
                (Inl e, st2) \<Rightarrow> (Some e, st2)
              | (Inr can, st2) \<Rightarrow>
                  if can then
                    let st3 = control_device env cfg now (dev_id device) False st2
                    in case (undefined_method ''schedule_device_restoration'' st3
                               :: (error + unit) \<times> state) of
                         (Inl e, st4) \<Rightarrow> (Some e, st4)
                       | (Inr _, st4) \<Rightarrow>
                           defer_loop env cfg now ds
                             (log_optimization env ''cost_efficiency'' (dev_id device)
                                ''deferred_to_off_peak'' st4)
                  else defer_loop env cfg now ds st2
            else defer_loop env cfg now ds st1
      else defer_loop env cfg now ds st)"

definition optimize_cost_efficiency_body ::
  "io \<Rightarrow> config \<Rightarrow> datetime \<Rightarrow> state \<Rightarrow> error option \<times> state"
where
  "optimize_cost_efficiency_body env cfg now st =
     (case is_peak_hour cfg now of
        Inl e \<Rightarrow> (Some e, st)
      | Inr is_peak \<Rightarrow>
          (case is_off_peak_hour cfg now of
             Inl e \<Rightarrow> (Some e, st)
           | Inr is_off_peak \<Rightarrow>
               if is_peak then
                 let st1 = logger (Log INFO
                             ''Peak hours detected - optimizing for cost efficiency'' []) st
                 in case config_devices cfg ''appliances'' of
                      Inl e \<Rightarrow> (Some e, st1)
                    | Inr ds \<Rightarrow> defer_loop env cfg now ds st1
               else if is_off_peak then
                 let st1 = logger (Log INFO
                             ''Off-peak hours detected - running deferred appliances'' []) st
                 in case (undefined_method ''run_deferred_appliances'' st1
                            :: (error + unit) \<times> state) of
                      (Inl e, st2) \<Rightarrow> (Some e, st2)
                    | (Inr _, st2) \<Rightarrow> (None, st2)
               else (None, st)))"

definition optimize_cost_efficiency :: "io \<Rightarrow> config \<Rightarrow> datetime \<Rightarrow> state \<Rightarrow> state" where
  "optimize_cost_efficiency env cfg now st =
     (case optimize_cost_efficiency_body env cfg now st of
        (None, st') \<Rightarrow> st'
      | (Some e, st') \<Rightarrow>
          logger (Log ERROR ''Cost efficiency optimization error: {}'' [AErr e]) st')"

subsection \<open>\<open>predict_energy_consumption\<close>, \<open>find_optimal_time_slot\<close>, \<open>smart_scheduling\<close>\<close>

fun energy_row :: "db_row \<Rightarrow> (datetime \<times> string option \<times> real) option" where
  "energy_row (EnergyReadingRow ts d p v c) = Some (ts, d, p)"
| "energy_row _ = None"

definition energy_readings :: "state \<Rightarrow> (datetime \<times> string option \<times> real) list" where
  \<comment> \<open>the rows of table \<open>energy_readings\<close>: timestamp, device_id, power_consumption\<close>
  "energy_readings st = List.map_filter energy_row (db st)"

definition predict_energy_consumption_body ::
  "io \<Rightarrow> datetime \<Rightarrow> nat \<Rightarrow> state \<Rightarrow> error + (datetime \<times> real) list option"
where
  "predict_energy_consumption_body env now hours_ahead st =
     (case map_of (ml_models st) ''consumption_predictor'' of
        None \<Rightarrow> Inl (KeyError ''consumption_predictor'')
      | Some None \<Rightarrow> Inr None
      | Some (Some model) \<Rightarrow>
          (case db_fault env ''energy_readings'' of
             Some e \<Rightarrow> Inl e
           | None \<Rightarrow>
               let end_time = now;
                   start_time = end_time - 30 * 86400000000;
                   data = sort_key fst
                            (map (\<lambda>r. (fst r, snd (snd r)))
                               (filter (\<lambda>r. start_time \<le> fst r \<and> fst r \<le> end_time)
                                  (energy_readings st)))
               in if length data < 100 then Inr None
                  else
                    (case forecast model data hours_ahead of
                       Inl e \<Rightarrow> Inl e
                     | Inr predictions \<Rightarrow>
                         Inr (Some (zip (map (\<lambda>i. end_time + (i + 1) * 3600000000)
                                           [0..<hours_ahead])
                                        predictions)))))"

definition predict_energy_consumption ::
  "io \<Rightarrow> datetime \<Rightarrow> nat \<Rightarrow> state \<Rightarrow> (datetime \<times> real) list option \<times> state"
where
  "predict_energy_consumption env now hours_ahead st =
     (case predict_energy_consumption_body env now hours_ahead st of
        Inl e \<Rightarrow> (None, logger (Log ERROR ''Energy prediction error: {}'' [AErr e]) st)
      | Inr r \<Rightarrow> (r, st))"

definition get_hourly_rate :: "config \<Rightarrow> datetime \<Rightarrow> error + real" where
  \<comment> \<open>the argument \<open>hour\<close> is not used by the source\<close>
  "get_hourly_rate cfg now =
     (case is_peak_hour cfg now of
        Inl e \<Rightarrow> Inl e
      | Inr is_peak \<Rightarrow>
          if is_peak then Inr (peak_rate cfg)
          else
            (case is_off_peak_hour cfg now of
               Inl e \<Rightarrow> Inl e
             | Inr is_off_peak \<Rightarrow>
                 if is_off_peak then Inr (off_peak_rate cfg) else Inr (normal_rate cfg)))"

fun slot_cost ::
  "config \<Rightarrow> datetime \<Rightarrow> real \<Rightarrow> (datetime \<times> real) list \<Rightarrow> real \<Rightarrow> error + real"
where
  "slot_cost cfg now device_power [] total_cost = Inr total_cost"
| "slot_cost cfg now device_power (tp # rest) total_cost =
     (case get_hourly_rate cfg now of
        Inl e \<Rightarrow> Inl e
      | Inr hourly_rate \<Rightarrow>
          slot_cost cfg now device_power rest
            (fadd total_cost
               (fdiv (fmul (fadd (snd tp) device_power) hourly_rate) 1000)))"

text \<open>
  The loop of \<open>find_optimal_time_slot\<close> over \<open>range(len(predictions) - duration_hours)\<close>;
  \<open>min_cost\<close> is \<open>None\<close> for \<open>float('inf')\<close>.
\<close>

fun slot_loop ::
  "config \<Rightarrow> datetime \<Rightarrow> (datetime \<times> real) list \<Rightarrow> real \<Rightarrow> nat \<Rightarrow> nat list
     \<Rightarrow> real option \<Rightarrow> datetime option \<Rightarrow> error + datetime option"
where
  "slot_loop cfg now predictions device_power duration_hours [] min_cost optimal_time =
     Inr optimal_time"
| "slot_loop cfg now predictions device_power duration_hours (i # is) min_cost optimal_time =
     (let time_slot = take duration_hours (drop i predictions)
      in case slot_cost cfg now device_power time_slot 0 of
           Inl e \<Rightarrow> Inl e
         | Inr total_cost \<Rightarrow>
             if (case min_cost of None \<Rightarrow> True | Some m \<Rightarrow> total_cost < m) then
               (case time_slot of
                  [] \<Rightarrow> Inl (IndexError ''list index out of range'')
                | tp # _ \<Rightarrow>
                    slot_loop cfg now predictions device_power duration_hours is
                      (Some total_cost) (Some (fst tp)))
             else
               slot_loop cfg now predictions device_power duration_hours is
                 min_cost optimal_time)"

definition find_optimal_time_slot ::
  "config \<Rightarrow> datetime \<Rightarrow> (datetime \<times> real) list \<Rightarrow> real \<Rightarrow> nat \<Rightarrow> state
     \<Rightarrow> datetime option \<times> state"
where
  "find_optimal_time_slot cfg now predictions device_power duration_hours st =
     (case slot_loop cfg now predictions device_power duration_hours
             [0..<length predictions - duration_hours] None None of
        Inl e \<Rightarrow> (None, logger (Log ERROR ''Error finding optimal time slot: {}'' [AErr e]) st)
      | Inr optimal_time \<Rightarrow> (optimal_time, st))"

fun schedule_loop ::
  "io \<Rightarrow> config \<Rightarrow> datetime \<Rightarrow> (datetime \<times> real) list \<Rightarrow> device list \<Rightarrow> state
     \<Rightarrow> error option \<times> state"
where
  "schedule_loop env cfg now predictions [] st = (None, st)"
| "schedule_loop env cfg now predictions (device # ds) st =
     (case find_optimal_time_slot cfg now predictions (power_rating device)
             (case duration device of None \<Rightarrow> 2 | Some d \<Rightarrow> d) st of
        (None, st1) \<Rightarrow> schedule_loop env cfg now predictions ds st1
      | (Some optimal_time, st1) \<Rightarrow>
          (case (undefined_method ''schedule_device_operation'' st1
                   :: (error + unit) \<times> state) of
             (Inl e, st2) \<Rightarrow> (Some e, st2)
           | (Inr _, st2) \<Rightarrow>
               schedule_loop env cfg now predictions ds
                 (log_optimization env ''smart_scheduling'' (dev_id device)
                    ''scheduled_for_{}'' st2)))"

definition smart_scheduling_body ::
  "io \<Rightarrow> config \<Rightarrow> datetime \<Rightarrow> state \<Rightarrow> error option \<times> state"
where
  "smart_scheduling_body env cfg now st =
     (case predict_energy_consumption env now 24 st of
        (None, st1) \<Rightarrow> (None, st1)
      | (Some predictions, st1) \<Rightarrow>
          if predictions = [] then (None, st1)
          else
            (case config_devices cfg ''appliances'' of
               Inl e \<Rightarrow> (Some e, st1)
             | Inr ds \<Rightarrow>
                 schedule_loop env cfg now predictions
                   (filter (\<lambda>device. power_rating device > 1000 \<and> \<not> get_always_on device) ds)
                   st1))"

definition smart_scheduling :: "io \<Rightarrow> config \<Rightarrow> datetime \<Rightarrow> state \<Rightarrow> state" where
  "smart_scheduling env cfg now st =
     (case smart_scheduling_body env cfg now st of
        (None, st') \<Rightarrow> st'
      | (Some e, st') \<Rightarrow> logger (Log ERROR ''Smart scheduling error: {}'' [AErr e]) st')"

subsection \<open>\<open>run_optimization_cycle\<close>\<close>

text \<open>
  The \<open>try\<close> block of \<open>run_optimization_cycle\<close>: each of the three rules it calls
  catches \<open>Exception\<close> itself, so the block completes.
\<close>

definition run_optimization_cycle_body ::
  "io \<Rightarrow> config \<Rightarrow> datetime \<Rightarrow> state \<Rightarrow> error option \<times> state"
where
  "run_optimization_cycle_body env cfg now st =
     (let st1 = logger (Log INFO ''Starting optimization cycle'' []) st;
          st2 = (if auto_optimization_enabled st1 then
                   smart_scheduling env cfg now
                     (optimize_cost_efficiency env cfg now
                        (optimize_load_balancing env cfg now st1))
                 else st1)
      in (None, logger (Log INFO ''Optimization cycle completed'' []) st2))"

definition run_optimization_cycle :: "io \<Rightarrow> config \<Rightarrow> datetime \<Rightarrow> state \<Rightarrow> state" where
  "run_optimization_cycle env cfg now st =
     (case run_optimization_cycle_body env cfg now st of
        (None, st') \<Rightarrow> st'
      | (Some e, st') \<Rightarrow> logger (Log ERROR ''Optimization cycle error: {}'' [AErr e]) st')"

subsection \<open>\<open>detect_energy_anomalies\<close>, \<open>handle_energy_anomaly\<close>\<close>

definition show_opt :: "string option \<Rightarrow> logarg" where
  "show_opt x = (case x of None \<Rightarrow> AStr ''None'' | Some s \<Rightarrow> AStr s)"

definition json_opt :: "string option \<Rightarrow> jvalue" where
  "json_opt x = (case x of None \<Rightarrow> JNull | Some s \<Rightarrow> JStr s)"

definition handle_energy_anomaly ::
  "io \<Rightarrow> config \<Rightarrow> datetime \<Rightarrow> string option \<Rightarrow> real \<Rightarrow> real \<Rightarrow> state \<Rightarrow> state"
where
  "handle_energy_anomaly env cfg now device_id power' anomaly_score st =
     (let st1 = logger (Log WARNING ''Energy anomaly detected: {} consuming {}W (score: {})''
                          [show_opt device_id, ANum power', ANum anomaly_score]) st;
          alert_data =
            [(''type'', JStr ''ENERGY_ANOMALY''),
             (''device_id'', json_opt device_id),
             (''power_consumption'', JNum power'),
             (''anomaly_score'', JNum anomaly_score),
             (''timestamp'', JIso now),
             (''severity'', JStr (if \<bar>anomaly_score\<bar> < 0.5 then ''medium'' else ''high''))]
      in case mqtt_publish env (topic_alerts cfg) alert_data st1 of
           (Some e, st2) \<Rightarrow> logger (Log ERROR ''Error handling energy anomaly: {}'' [AErr e]) st2
         | (None, st2) \<Rightarrow>
             if \<bar>anomaly_score\<bar> > lit_0_7 then
               (case (undefined_method ''emergency_device_shutdown'' st2
                        :: (error + unit) \<times> state) of
                  (Inl e, st3) \<Rightarrow>
                    logger (Log ERROR ''Error handling energy anomaly: {}'' [AErr e]) st3
                | (Inr _, st3) \<Rightarrow> st3)
             else st2)"

definition detect_energy_anomalies_body ::
  "io \<Rightarrow> config \<Rightarrow> datetime \<Rightarrow> string option \<Rightarrow> real \<Rightarrow> state \<Rightarrow> error option \<times> state"
where
  "detect_energy_anomalies_body env cfg now device_id current_power st =
     (case map_of (ml_models st) ''anomaly_detector'' of
        None \<Rightarrow> (Some (KeyError ''anomaly_detector''), st)
      | Some None \<Rightarrow> (None, st)
      | Some (Some model) \<Rightarrow>
          (case db_fault env ''energy_readings'' of
             Some e \<Rightarrow> (Some e, st)
           | None \<Rightarrow>
               let historical_data =
                     take 100
                       (rev (map (\<lambda>r. snd (snd r))
                               (sort_key fst
                                  (filter (\<lambda>r. device_id \<noteq> None \<and> fst (snd r) = device_id)
                                     (energy_readings st)))))
               in if length historical_data < 10 then (None, st)
                  else
                    (case decision_function model current_power of
                       Inl e \<Rightarrow> (Some e, st)
                     | Inr anomaly_score \<Rightarrow>
                         (case predict model current_power of
                            Inl e \<Rightarrow> (Some e, st)
                          | Inr label \<Rightarrow>
                              if label = - 1 then
                                (None, handle_energy_anomaly env cfg now device_id
                                         current_power anomaly_score st)
                              else (None, st)))))"

definition detect_energy_anomalies ::
  "io \<Rightarrow> config \<Rightarrow> datetime \<Rightarrow> string option \<Rightarrow> real \<Rightarrow> state \<Rightarrow> state"
where
  "detect_energy_anomalies env cfg now device_id current_power st =
     (case detect_energy_anomalies_body env cfg now device_id current_power st of
        (None, st') \<Rightarrow> st'
      | (Some e, st') \<Rightarrow> logger (Log ERROR ''Anomaly detection error: {}'' [AErr e]) st')"

subsection \<open>\<open>check_optimization_triggers\<close>, \<open>process_energy_reading\<close>\<close>

definition check_optimization_triggers ::
  "io \<Rightarrow> config \<Rightarrow> datetime \<Rightarrow> state \<Rightarrow> error option \<times> state"
where
  "check_optimization_triggers env cfg now st =
     (let st1 = (if total_power st > high_usage_alert cfg
                 then optimize_load_balancing env cfg now st else st)
      in case is_peak_hour cfg now of
           Inl e \<Rightarrow> (Some e, st1)
         | Inr is_peak \<Rightarrow>
             if is_peak then (None, optimize_cost_efficiency env cfg now st1)
             else (None, st1))"

definition deque_append :: "nat \<Rightarrow> 'a \<Rightarrow> 'a list \<Rightarrow> 'a list" where
  \<comment> \<open>\<open>append\<close> on a \<open>deque(maxlen=n)\<close>: a full deque drops its oldest entry\<close>
  "deque_append n x xs = (let ys = xs @ [x] in drop (length ys - n) ys)"

definition process_energy_reading_body ::
  "io \<Rightarrow> config \<Rightarrow> datetime \<Rightarrow> energy_message \<Rightarrow> state \<Rightarrow> error option \<times> state"
where
  "process_energy_reading_body env cfg now data st =
     (let timestamp = (case m_timestamp data of None \<Rightarrow> now | Some t \<Rightarrow> t);
          device_id = m_device_id data;
          power' = (case m_power_consumption data of None \<Rightarrow> 0 | Some x \<Rightarrow> x);
          voltage = (case m_voltage data of None \<Rightarrow> 0 | Some x \<Rightarrow> x);
          current = (case m_current data of None \<Rightarrow> 0 | Some x \<Rightarrow> x)
      in case db_insert env ''energy_readings''
                (EnergyReadingRow timestamp device_id power' voltage current) st of
           (Some e, st1) \<Rightarrow> (Some e, st1)
         | (None, st1) \<Rightarrow>
             let st2 = st1\<lparr>current_readings :=
                          AList.update device_id
                            \<lparr>r_timestamp = timestamp, r_power = power',
                             r_voltage = voltage, r_current = current\<rparr>
                            (current_readings st1)\<rparr>;
                 st3 = st2\<lparr>consumption_history :=
                          deque_append 1000
                            \<lparr>h_timestamp = timestamp, h_device_id = device_id, h_power = power'\<rparr>
                            (consumption_history st2)\<rparr>;
                 st4 = detect_energy_anomalies env cfg now device_id power' st3
             in if auto_optimization_enabled st4
                then check_optimization_triggers env cfg now st4
                else (None, st4))"

definition process_energy_reading ::
  "io \<Rightarrow> config \<Rightarrow> datetime \<Rightarrow> energy_message \<Rightarrow> state \<Rightarrow> state"
where
  "process_energy_reading env cfg now data st =
     (case process_energy_reading_body env cfg now data st of
        (None, st') \<Rightarrow> st'
      | (Some e, st') \<Rightarrow> logger (Log ERROR ''Error processing energy reading: {}'' [AErr e]) st')"

subsection \<open>\<open>optimize_based_on_occupancy\<close>, \<open>process_occupancy_data\<close>\<close>

definition endswith :: "string \<Rightarrow> string \<Rightarrow> bool" where
  "endswith s suffix' =
     (length suffix' \<le> length s \<and> drop (length s - length suffix') s = suffix')"

definition get_devices_in_room :: "config \<Rightarrow> string option \<Rightarrow> device list" where
  "get_devices_in_room cfg room' =
     filter (\<lambda>device. Some (room device) = room') (concat (map snd (devices cfg)))"

definition timedelta_seconds :: "datetime \<Rightarrow> datetime \<Rightarrow> int" where
  \<comment> \<open>\<open>(a - b).seconds\<close>: the seconds field of the normalised \<open>timedelta\<close>, without its days\<close>
  "timedelta_seconds a b = ((int a - int b) div 1000000) mod 86400"

fun occupancy_loop ::
  "io \<Rightarrow> config \<Rightarrow> datetime \<Rightarrow> occupancy option \<Rightarrow> bool \<Rightarrow> device list \<Rightarrow> state
     \<Rightarrow> error option \<times> state"
where
  "occupancy_loop env cfg now occ is_occupied [] st = (None, st)"
| "occupancy_loop env cfg now occ is_occupied (device # ds) st =
     (if endswith (dev_id device) ''_light'' then
        if \<not> is_occupied then
          (case is_peak_hour cfg now of
             Inl e \<Rightarrow> (Some e, st)
           | Inr is_peak \<Rightarrow>
               if \<not> is_peak then
                 occupancy_loop env cfg now occ is_occupied ds
                   (log_optimization env ''occupancy_based'' (dev_id device) ''light_auto_off''
                      (control_device env cfg now (dev_id device) False st))
               else occupancy_loop env cfg now occ is_occupied ds st)
        else occupancy_loop env cfg now occ is_occupied ds st
      else if endswith (dev_id device) ''_fan'' then
        if is_occupied then
          let room_temp = (case occ of None \<Rightarrow> 25 | Some x \<Rightarrow> temperature x)
          in if room_temp > 28 then
               occupancy_loop env cfg now occ is_occupied ds
                 (control_device env cfg now (dev_id device) True st)
             else if room_temp < 22 then
               occupancy_loop env cfg now occ is_occupied ds
                 (control_device env cfg now (dev_id device) False st)
             else occupancy_loop env cfg now occ is_occupied ds st
        else
          let last_activity = (case occ of None \<Rightarrow> now | Some x \<Rightarrow> o_timestamp x)
          in if timedelta_seconds now last_activity > 600 then
               occupancy_loop env cfg now occ is_occupied ds
                 (log_optimization env ''occupancy_based'' (dev_id device) ''fan_auto_off''
                    (control_device env cfg now (dev_id device) False st))
             else occupancy_loop env cfg now occ is_occupied ds st
      else occupancy_loop env cfg now occ is_occupied ds st)"

definition optimize_based_on_occupancy ::
  "io \<Rightarrow> config \<Rightarrow> datetime \<Rightarrow> string option \<Rightarrow> state \<Rightarrow> state"
where
  "optimize_based_on_occupancy env cfg now room' st =
     (let occ = map_of (occupancy_sensors st) room';
          is_occupied =
            ((case occ of None \<Rightarrow> False | Some x \<Rightarrow> motion_detected x)
             \<or> (case occ of None \<Rightarrow> 0 | Some x \<Rightarrow> occupancy_count x) > 0);
          room_devices = get_devices_in_room cfg room'
      in case occupancy_loop env cfg now occ is_occupied room_devices st of
           (None, st') \<Rightarrow> st'
         | (Some e, st') \<Rightarrow>
             logger (Log ERROR ''Occupancy-based optimization error: {}'' [AErr e]) st')"

definition process_occupancy_data ::
  "io \<Rightarrow> config \<Rightarrow> datetime \<Rightarrow> occupancy_message \<Rightarrow> state \<Rightarrow> state"
where
  "process_occupancy_data env cfg now data st =
     (let room' = m_room data;
          count = (case m_occupancy_count data of None \<Rightarrow> 0 | Some x \<Rightarrow> x);
          motion = (case m_motion_detected data of None \<Rightarrow> False | Some x \<Rightarrow> x);
          temp = (case m_temperature data of None \<Rightarrow> 0 | Some x \<Rightarrow> x);
          st1 = st\<lparr>occupancy_sensors :=
                     AList.update room'
                       \<lparr>occupancy_count = count, motion_detected = motion,
                        temperature = temp, o_timestamp = now\<rparr>
                       (occupancy_sensors st)\<rparr>
      in case db_insert env ''occupancy_data'' (OccupancyRow room' count motion temp) st1 of
           (Some e, st2) \<Rightarrow>
             logger (Log ERROR ''Error processing occupancy data: {}'' [AErr e]) st2
         | (None, st2) \<Rightarrow> optimize_based_on_occupancy env cfg now room' st2)"

section \<open>\<open>SecuritySystem\<close>: arming and disarming\<close>

record security_event =
  event_type :: string
  description :: string
  location :: string
  severity :: nat
  image_path :: "string option"

record sec_state =
  system_armed :: bool
  intrusion_detected :: bool
  security_events :: "security_event list"
  sec_outbox :: "(string \<times> payload) list"
  sec_log :: "log_entry list"

definition sec_logger :: "log_entry \<Rightarrow> sec_state \<Rightarrow> sec_state" where
  "sec_logger e s = s\<lparr>sec_log := sec_log s @ [e]\<rparr>"

text \<open>
  \<open>log_security_event\<close>; \<open>alerts\<close> is \<open>self.config["mqtt"]["topics"]["alerts"]\<close>.
\<close>

definition log_security_event ::
  "io \<Rightarrow> string \<Rightarrow> datetime \<Rightarrow> string \<Rightarrow> string \<Rightarrow> string \<Rightarrow> nat \<Rightarrow> string option
     \<Rightarrow> sec_state \<Rightarrow> sec_state"
where
  "log_security_event env alerts now event_type' description' location' severity' image_path' s =
     (case db_fault env ''security_events'' of
        Some e \<Rightarrow> sec_logger (Log ERROR ''Error logging security event: {}'' [AErr e]) s
      | None \<Rightarrow>
          let s1 = s\<lparr>security_events := security_events s @
                       [\<lparr>event_type = event_type', description = description',
                         location = location', severity = severity',
                         image_path = image_path'\<rparr>]\<rparr>;
              alert_data =
                [(''type'', JStr event_type'),
                 (''description'', JStr description'),
                 (''location'', JStr location'),
                 (''severity'', JNum (real severity')),
                 (''timestamp'', JIso now),
                 (''image_path'', json_opt image_path')]
          in case mqtt_fault env alerts alert_data of
               Some e \<Rightarrow> sec_logger (Log ERROR ''Error logging security event: {}'' [AErr e]) s1
             | None \<Rightarrow> s1\<lparr>sec_outbox := sec_outbox s1 @ [(alerts, alert_data)]\<rparr>)"

definition arm_system :: "io \<Rightarrow> string \<Rightarrow> datetime \<Rightarrow> sec_state \<Rightarrow> sec_state" where
  "arm_system env alerts now s =
     (let s1 = s\<lparr>system_armed := True\<rparr>;
          s2 = log_security_event env alerts now ''SYSTEM_ARMED'' ''Security system armed''
                 ''system'' 1 None s1
      in sec_logger (Log INFO ''Security system ARMED'' []) s2)"

definition disarm_system :: "io \<Rightarrow> string \<Rightarrow> datetime \<Rightarrow> sec_state \<Rightarrow> sec_state" where
  "disarm_system env alerts now s =
     (let s1 = s\<lparr>system_armed := False\<rparr>;
          s2 = s1\<lparr>intrusion_detected := False\<rparr>;
          s3 = log_security_event env alerts now ''SYSTEM_DISARMED''
                 ''Security system disarmed'' ''system'' 1 None s2
      in sec_logger (Log INFO ''Security system DISARMED'' []) s3)"

section \<open>Deliveries and example inputs\<close>

text \<open>
  \<open>on_mqtt_message\<close> hands each message of the energy topic to
  \<open>process_energy_reading\<close> as it arrives; a delivery is the arrival time with the
  message.
\<close>

fun deliver_readings ::
  "io \<Rightarrow> config \<Rightarrow> (datetime \<times> energy_message) list \<Rightarrow> state \<Rightarrow> state"
where
  "deliver_readings env cfg [] st = st"
| "deliver_readings env cfg (d # rest) st =
     deliver_readings env cfg rest (process_energy_reading env cfg (fst d) (snd d) st)"

definition reading_message :: "datetime \<Rightarrow> string \<Rightarrow> real \<Rightarrow> energy_message" where
  "reading_message ts d p =
     \<lparr>m_timestamp = Some ts, m_device_id = Some d, m_power_consumption = Some p,
      m_voltage = None, m_current = None\<rparr>"

definition mk_reading :: "datetime \<Rightarrow> real \<Rightarrow> reading" where
  "mk_reading ts p = \<lparr>r_timestamp = ts, r_power = p, r_voltage = 0, r_current = 0\<rparr>"

text \<open>
  The load-shedding example: A (priority 1, 500 W), B (priority 3, 200 W),
  C (priority 2, 100 W), all reporting their rated power, a fourth reading
  bringing the aggregate to 1000 W, and the threshold at 1000 W.
\<close>

definition cfg_load_shedding :: config where
  "cfg_load_shedding =
     default_config
       \<lparr>devices := [(''appliances'',
                      [mk_device ''A'' 500 ''hall'' 1,
                       mk_device ''B'' 200 ''hall'' 3,
                       mk_device ''C'' 100 ''hall'' 2])],
        high_usage_alert := 1000\<rparr>"

definition st_load_shedding :: state where
  "st_load_shedding =
     init_state
       \<lparr>current_readings :=
          [(Some ''A'', mk_reading 0 500), (Some ''B'', mk_reading 0 200),
           (Some ''C'', mk_reading 0 100), (Some ''base'', mk_reading 0 200)]\<rparr>"


text \<open>An off-peak window that does not cross midnight.\<close>

definition cfg_off_peak_night :: config where
  "cfg_off_peak_night =
     default_config\<lparr>off_peak_hours := [\<lparr>p_start = ''01:00'', p_end = ''05:00''\<rparr>]\<rparr>"

text \<open>An occupancy message of the empty hall.\<close>

definition hall_empty :: occupancy_message where
  "hall_empty =
     \<lparr>m_room = Some ''hall'', m_occupancy_count = Some 0, m_motion_detected = Some False,
      m_temperature = Some 25\<rparr>"

text \<open>
  The shape the messages of the device-control topic have: the keys of
  \<open>command_data\<close>, in order, and a command that is \<open>on\<close> or \<open>off\<close>.
\<close>

definition control_message_ok :: "payload \<Rightarrow> bool" where
  "control_message_ok p =
     (map fst p = [''device_id'', ''command'', ''timestamp'', ''source'']
      \<and> (map_of p ''command'' = Some (JStr ''on'') \<or> map_of p ''command'' = Some (JStr ''off'')))"

definition on_topic :: "string \<Rightarrow> (string \<times> payload) list \<Rightarrow> payload list" where
  "on_topic topic msgs = map snd (filter (\<lambda>m. fst m = topic) msgs)"

text \<open>The snapshot entry \<open>process_energy_reading\<close> builds from a message.\<close>

definition stored_reading :: "datetime \<Rightarrow> energy_message \<Rightarrow> reading" where
  "stored_reading now data =
     \<lparr>r_timestamp = (case m_timestamp data of None \<Rightarrow> now | Some t \<Rightarrow> t),
      r_power = (case m_power_consumption data of None \<Rightarrow> 0 | Some x \<Rightarrow> x),
      r_voltage = (case m_voltage data of None \<Rightarrow> 0 | Some x \<Rightarrow> x),
      r_current = (case m_current data of None \<Rightarrow> 0 | Some x \<Rightarrow> x)\<rparr>"

text \<open>
  \<open>grows st st'\<close>: from \<open>st\<close> to \<open>st'\<close> the snapshot, the sensors and the switches
  are unchanged, and the log, the outbox and the database only got longer.
\<close>

definition grows :: "state \<Rightarrow> state \<Rightarrow> bool" where
  "grows st st' =
     (current_readings st' = current_readings st
      \<and> consumption_history st' = consumption_history st
      \<and> occupancy_sensors st' = occupancy_sensors st
      \<and> ml_models st' = ml_models st
      \<and> auto_optimization_enabled st' = auto_optimization_enabled st
      \<and> prefix (log st) (log st')
      \<and> prefix (outbox st) (outbox st')
      \<and> prefix (db st) (db st'))"








text \<open>
  \<open>ctl_inv cfg st\<close>: every message of the outbox on the device-control topic has the
  shape of \<open>command_data\<close>.
\<close>

definition ctl_inv :: "config \<Rightarrow> state \<Rightarrow> bool" where
  "ctl_inv cfg st =
     list_all control_message_ok (on_topic (topic_device_control cfg) (outbox st))"

section \<open>Unfolding the primitives and the examples\<close>

lemmas prim_defs = control_device_def mqtt_publish_def db_insert_def logger_def
  log_optimization_def undefined_method_def

lemmas ex_defs = no_faults_def init_state_def default_config_def mk_device_def
  command_data_def mk_reading_def reading_message_def

lemmas time_defs = is_peak_hour_def is_off_peak_hour_def strptime_HM_def digit_val_def
  time_hms_def dt_time_def

text \<open>The float operations on the numbers of the examples.\<close>

lemma float_values:
  "fadd 0 60 = 60" "fadd 0 75 = 75" "fadd 0 1600 = 1600"
  "fadd 0 500 = 500" "fadd 500 200 = 700" "fadd 700 100 = 800" "fadd 800 200 = 1000"
  "fmul 1000 lit_0_8 = 800" "fmul 2000 lit_0_8 = 1600"
  by code_simp+

section \<open>Tariff windows\<close>

text \<open>
  C6. With the peak window 18:00 to 22:00 of the default configuration,
  \<open>is_peak_hour\<close> is true exactly for the times of day from 18:00:00 to 22:00:00, both
  ends included: 18:00:00 is peak and 17:59:59 is not (nor is 17:59:59.999999), 22:00:00
  is peak and the microsecond after it is not.
\<close>

theorem is_peak_hour_inclusive:
  "is_peak_hour default_config now =
     Inr (time_hms 18 0 0 0 \<le> dt_time now \<and> dt_time now \<le> time_hms 22 0 0 0)
   \<and> is_peak_hour default_config (time_hms 18 0 0 0) = Inr True
   \<and> is_peak_hour default_config (time_hms 17 59 59 0) = Inr False
   \<and> is_peak_hour default_config (time_hms 17 59 59 999999) = Inr False
   \<and> is_peak_hour default_config (time_hms 22 0 0 0) = Inr True
   \<and> is_peak_hour default_config (time_hms 22 0 0 1) = Inr False"
  by (simp add: is_peak_hour_def default_config_def strptime_HM_def digit_val_def time_hms_def dt_time_def)

text \<open>
  C4. \<open>is_off_peak_hour\<close> tests \<open>start <= t or t <= end\<close> whatever the order of
  \<open>start\<close> and \<open>end\<close>. For the window 01:00 to 05:00, which does not cross midnight,
  noon is classified off-peak.
\<close>

theorem is_off_peak_hour_noon_in_night_window:
  "is_off_peak_hour cfg_off_peak_night (time_hms 12 0 0 0) = Inr True"
  by (simp add: is_off_peak_hour_def cfg_off_peak_night_def default_config_def
        strptime_HM_def digit_val_def time_hms_def dt_time_def)

section \<open>Arming and disarming\<close>

lemma log_security_event_flags:
  "system_armed (log_security_event env a now t d l sv ip s) = system_armed s \<and>
   intrusion_detected (log_security_event env a now t d l sv ip s) = intrusion_detected s"
  by (simp add: log_security_event_def sec_logger_def Let_def split: option.splits)

text \<open>
  C10. Whatever the state before and whatever the database and the MQTT client do:
  after \<open>disarm_system\<close> the system is not armed and the intrusion flag is cleared;
  after \<open>arm_system\<close> the system is armed and the intrusion flag is what it was.
\<close>

theorem disarm_clears_intrusion_arm_keeps_it:
  "system_armed (disarm_system env alerts now s) = False \<and>
   intrusion_detected (disarm_system env alerts now s) = False \<and>
   system_armed (arm_system env alerts now s) = True \<and>
   intrusion_detected (arm_system env alerts now s) = intrusion_detected s"
  by (simp add: disarm_system_def arm_system_def sec_logger_def Let_def
        log_security_event_flags)

section \<open>What the rules leave alone\<close>

text \<open>
  Every rule and handler below only appends to the log, the outbox and the database:
  the snapshot, the history, the sensors, the models and the switches stay as they
  were.
\<close>

lemma grows_refl: "grows st st"
  by (simp add: grows_def)

lemma grows_logger: "grows st0 st \<Longrightarrow> grows st0 (logger e st)"
  by (simp add: grows_def logger_def)

lemma grows_control_device: "grows st0 st \<Longrightarrow> grows st0 (control_device env cfg now d b st)"
  by (simp add: grows_def control_device_def mqtt_publish_def logger_def split: option.splits)

lemma grows_log_optimization: "grows st0 st \<Longrightarrow> grows st0 (log_optimization env a b c st)"
  by (simp add: grows_def log_optimization_def db_insert_def logger_def split: option.splits)

lemma grows_shed_loop:
  "grows st0 st \<Longrightarrow> grows st0 (snd (shed_loop env cfg now l ds r st))"
  by (induction ds arbitrary: st r) (simp_all add: undefined_method_def)

lemma grows_optimize_load_balancing:
  "grows st0 st \<Longrightarrow> grows st0 (optimize_load_balancing env cfg now st)"
  by (simp add: optimize_load_balancing_def optimize_load_balancing_body_def
        undefined_method_def Let_def grows_logger)

lemma grows_defer_loop:
  "grows st0 st \<Longrightarrow> grows st0 (snd (defer_loop env cfg now ds st))"
  by (induction ds arbitrary: st) (simp_all add: undefined_method_def)

lemma grows_optimize_cost_efficiency:
  "grows st0 st \<Longrightarrow> grows st0 (optimize_cost_efficiency env cfg now st)"
proof -
  assume g: "grows st0 st"
  have "grows st0 (snd (optimize_cost_efficiency_body env cfg now st))"
    using g
    by (auto simp: optimize_cost_efficiency_body_def undefined_method_def Let_def
          intro: grows_logger grows_defer_loop split: sum.splits)
  then show ?thesis
    by (cases "optimize_cost_efficiency_body env cfg now st")
       (auto simp: optimize_cost_efficiency_def intro: grows_logger split: option.splits)
qed

lemma grows_find_optimal_time_slot:
  "grows st0 st \<Longrightarrow> grows st0 (snd (find_optimal_time_slot cfg now ps p d st))"
  by (auto simp: find_optimal_time_slot_def intro: grows_logger split: sum.splits)

lemma grows_schedule_loop:
  "grows st0 st \<Longrightarrow> grows st0 (snd (schedule_loop env cfg now ps ds st))"
proof (induction ds arbitrary: st)
  case Nil
  then show ?case by simp
next
  case (Cons d ds)
  let ?r = "find_optimal_time_slot cfg now ps (power_rating d)
              (case duration d of None \<Rightarrow> 2 | Some x \<Rightarrow> x) st"
  have g1: "grows st0 (snd ?r)"
    using Cons.prems by (rule grows_find_optimal_time_slot)
  show ?case
  proof (cases ?r)
    case (Pair a st1)
    with g1 have "grows st0 st1" by simp
    with Pair show ?thesis
      using Cons.IH [of st1]
      by (cases a) (simp_all add: undefined_method_def)
  qed
qed

lemma grows_predict: "grows st0 st \<Longrightarrow> grows st0 (snd (predict_energy_consumption env now h st))"
  by (auto simp: predict_energy_consumption_def intro: grows_logger split: sum.splits)

lemma grows_smart_scheduling:
  "grows st0 st \<Longrightarrow> grows st0 (smart_scheduling env cfg now st)"
proof -
  assume g: "grows st0 st"
  have "grows st0 (snd (smart_scheduling_body env cfg now st))"
  proof (cases "predict_energy_consumption env now 24 st")
    case (Pair a st1)
    from g have "grows st0 (snd (predict_energy_consumption env now 24 st))"
      by (rule grows_predict)
    with Pair have "grows st0 st1" by simp
    with Pair show ?thesis
      by (auto simp: smart_scheduling_body_def intro: grows_schedule_loop
            split: option.splits sum.splits)
  qed
  then show ?thesis
    by (cases "smart_scheduling_body env cfg now st")
       (auto simp: smart_scheduling_def intro: grows_logger split: option.splits)
qed

lemma grows_handle_energy_anomaly:
  "grows st0 st \<Longrightarrow> grows st0 (handle_energy_anomaly env cfg now d p a st)"
  by (simp add: grows_def handle_energy_anomaly_def mqtt_publish_def logger_def
        undefined_method_def Let_def split: option.splits)

lemma grows_detect_energy_anomalies:
  "grows st0 st \<Longrightarrow> grows st0 (detect_energy_anomalies env cfg now d p st)"
proof -
  assume g: "grows st0 st"
  have "grows st0 (snd (detect_energy_anomalies_body env cfg now d p st))"
    using g
    by (auto simp: detect_energy_anomalies_body_def Let_def
          intro: grows_handle_energy_anomaly split: option.splits sum.splits)
  then show ?thesis
    by (cases "detect_energy_anomalies_body env cfg now d p st")
       (auto simp: detect_energy_anomalies_def intro: grows_logger split: option.splits)
qed

lemma grows_check_optimization_triggers:
  "grows st0 st \<Longrightarrow> grows st0 (snd (check_optimization_triggers env cfg now st))"
  by (auto simp: check_optimization_triggers_def Let_def
        intro: grows_optimize_load_balancing grows_optimize_cost_efficiency
        split: sum.splits)

lemma grows_current_readings: "grows st0 st \<Longrightarrow> current_readings st = current_readings st0"
  by (simp add: grows_def)

lemma grows_log_mem: "grows st st' \<Longrightarrow> x \<in> set (log st) \<Longrightarrow> x \<in> set (log st')"
  by (auto simp: grows_def dest: set_mono_prefix)

section \<open>The snapshot of current readings\<close>

text \<open>
  C1, as stated, fails. Two readings of one device arrive newest first (timestamps
  2 s, then 1 s): the snapshot ends with the older reading, the second to arrive. The
  same two readings delivered in timestamp order leave the newer one.
\<close>

theorem out_of_order_reading_replaces_newer:
  "current_readings (deliver_readings no_faults default_config
      [(3000000, reading_message 2000000 ''hall_fan'' 75),
       (4000000, reading_message 1000000 ''hall_fan'' 60)] init_state)
     = [(Some ''hall_fan'', mk_reading 1000000 60)]
   \<and> current_readings (deliver_readings no_faults default_config
      [(3000000, reading_message 1000000 ''hall_fan'' 60),
       (4000000, reading_message 2000000 ''hall_fan'' 75)] init_state)
     = [(Some ''hall_fan'', mk_reading 2000000 75)]"
  by (simp add: process_energy_reading_def process_energy_reading_body_def
        detect_energy_anomalies_def detect_energy_anomalies_body_def
        check_optimization_triggers_def total_power_def deque_append_def
        float_values prim_defs ex_defs time_defs Let_def)

text \<open>
  C1, amended. \<open>process_energy_reading\<close> compares no timestamps. When the insert into
  \<open>energy_readings\<close> succeeds it sets the snapshot entry of the message's device to
  the incoming reading, whatever is stored (the last reading to arrive wins), and
  leaves the other entries as they are; when the insert raises, the snapshot is
  unchanged.
\<close>

theorem process_energy_reading_overwrites_snapshot:
  "current_readings (process_energy_reading env cfg now data st) =
     (case db_fault env ''energy_readings'' of
        Some e \<Rightarrow> current_readings st
      | None \<Rightarrow> AList.update (m_device_id data) (stored_reading now data) (current_readings st))"
proof (cases "db_fault env ''energy_readings''")
  case (Some e)
  then show ?thesis
    by (simp add: process_energy_reading_def process_energy_reading_body_def
          db_insert_def logger_def Let_def)
next
  case None
  define st3 where "st3 =
    st\<lparr>db := db st @ [EnergyReadingRow (r_timestamp (stored_reading now data)) (m_device_id data)
                          (r_power (stored_reading now data)) (r_voltage (stored_reading now data))
                          (r_current (stored_reading now data))],
       current_readings := AList.update (m_device_id data) (stored_reading now data) (current_readings st),
       consumption_history := deque_append 1000
          \<lparr>h_timestamp = r_timestamp (stored_reading now data), h_device_id = m_device_id data,
           h_power = r_power (stored_reading now data)\<rparr> (consumption_history st)\<rparr>"
  define st4 where "st4 = detect_energy_anomalies env cfg now (m_device_id data)
                            (r_power (stored_reading now data)) st3"
  have g4: "grows st3 st4"
    unfolding st4_def by (rule grows_detect_energy_anomalies [OF grows_refl])
  have body: "process_energy_reading_body env cfg now data st =
      (if auto_optimization_enabled st4 then check_optimization_triggers env cfg now st4
       else (None, st4))"
    using None
    by (simp add: process_energy_reading_body_def db_insert_def Let_def st3_def st4_def
          stored_reading_def)
  have g5: "grows st3 (snd (process_energy_reading_body env cfg now data st))"
    unfolding body using g4 by (simp add: grows_check_optimization_triggers)
  have "grows st3 (process_energy_reading env cfg now data st)"
    using g5
    by (cases "process_energy_reading_body env cfg now data st")
       (auto simp: process_energy_reading_def intro: grows_logger split: option.splits)
  then have "current_readings (process_energy_reading env cfg now data st) = current_readings st3"
    by (rule grows_current_readings)
  then show ?thesis using None by (simp add: st3_def)
qed

section \<open>\<open>control_device\<close>\<close>

text \<open>
  C7, as stated, fails. The same command for the same device dispatched twice at the
  same instant is published twice.
\<close>

theorem duplicate_dispatch_publishes_twice:
  "outbox (control_device no_faults default_config 0 ''hall_light'' False
            (control_device no_faults default_config 0 ''hall_light'' False init_state))
   = [(''energy/control'', command_data 0 ''hall_light'' False),
      (''energy/control'', command_data 0 ''hall_light'' False)]"
  by (simp add: control_device_def mqtt_publish_def no_faults_def logger_def init_state_def
        default_config_def)

text \<open>
  C7, amended. \<open>control_device\<close> keeps no record of what it sent: each of two
  dispatches of the same command publishes its message, unless the MQTT client raises
  for it.
\<close>

theorem control_device_publishes_every_dispatch:
  "outbox (control_device env cfg now' d b (control_device env cfg now d b st)) =
     outbox st
     @ (case mqtt_fault env (topic_device_control cfg) (command_data now d b) of
          None \<Rightarrow> [(topic_device_control cfg, command_data now d b)] | Some e \<Rightarrow> [])
     @ (case mqtt_fault env (topic_device_control cfg) (command_data now' d b) of
          None \<Rightarrow> [(topic_device_control cfg, command_data now' d b)] | Some e \<Rightarrow> [])"
  by (simp add: control_device_def mqtt_publish_def logger_def split: option.splits)

section \<open>The messages of the device-control topic\<close>

lemma control_message_ok_command_data: "control_message_ok (command_data now d b)"
  by (simp add: control_message_ok_def command_data_def)

lemma ctl_logger: "ctl_inv cfg st \<Longrightarrow> ctl_inv cfg (logger e st)"
  by (simp add: ctl_inv_def logger_def)

lemma ctl_control_device: "ctl_inv cfg st \<Longrightarrow> ctl_inv cfg (control_device env cfg now d b st)"
  by (simp add: ctl_inv_def on_topic_def control_device_def mqtt_publish_def logger_def
        control_message_ok_command_data split: option.splits)

lemma ctl_log_optimization: "ctl_inv cfg st \<Longrightarrow> ctl_inv cfg (log_optimization env a b c st)"
  by (simp add: ctl_inv_def log_optimization_def db_insert_def logger_def split: option.splits)

lemma ctl_shed_loop:
  "ctl_inv cfg st \<Longrightarrow> ctl_inv cfg (snd (shed_loop env cfg now l ds r st))"
  by (induction ds arbitrary: st r) (simp_all add: undefined_method_def)

lemma ctl_optimize_load_balancing:
  "ctl_inv cfg st \<Longrightarrow> ctl_inv cfg (optimize_load_balancing env cfg now st)"
  by (simp add: optimize_load_balancing_def optimize_load_balancing_body_def
        undefined_method_def Let_def ctl_logger)

lemma ctl_defer_loop:
  "ctl_inv cfg st \<Longrightarrow> ctl_inv cfg (snd (defer_loop env cfg now ds st))"
  by (induction ds arbitrary: st) (simp_all add: undefined_method_def)

lemma ctl_optimize_cost_efficiency:
  "ctl_inv cfg st \<Longrightarrow> ctl_inv cfg (optimize_cost_efficiency env cfg now st)"
proof -
  assume g: "ctl_inv cfg st"
  have "ctl_inv cfg (snd (optimize_cost_efficiency_body env cfg now st))"
    using g
    by (auto simp: optimize_cost_efficiency_body_def undefined_method_def Let_def
          intro: ctl_logger ctl_defer_loop split: sum.splits)
  then show ?thesis
    by (cases "optimize_cost_efficiency_body env cfg now st")
       (auto simp: optimize_cost_efficiency_def intro: ctl_logger split: option.splits)
qed

lemma ctl_find_optimal_time_slot:
  "ctl_inv cfg st \<Longrightarrow> ctl_inv cfg (snd (find_optimal_time_slot cfg now ps p d st))"
  by (auto simp: find_optimal_time_slot_def intro: ctl_logger split: sum.splits)

lemma ctl_schedule_loop:
  "ctl_inv cfg st \<Longrightarrow> ctl_inv cfg (snd (schedule_loop env cfg now ps ds st))"
proof (induction ds arbitrary: st)
  case Nil
  then show ?case by simp
next
  case (Cons d ds)
  let ?r = "find_optimal_time_slot cfg now ps (power_rating d)
              (case duration d of None \<Rightarrow> 2 | Some x \<Rightarrow> x) st"
  have g1: "ctl_inv cfg (snd ?r)"
    using Cons.prems by (rule ctl_find_optimal_time_slot)
  show ?case
  proof (cases ?r)
    case (Pair a st1)
    with g1 have "ctl_inv cfg st1" by simp
    with Pair show ?thesis
      using Cons.IH [of st1]
      by (cases a) (simp_all add: undefined_method_def)
  qed
qed

lemma ctl_predict: "ctl_inv cfg st \<Longrightarrow> ctl_inv cfg (snd (predict_energy_consumption env now h st))"
  by (auto simp: predict_energy_consumption_def intro: ctl_logger split: sum.splits)

lemma ctl_smart_scheduling:
  "ctl_inv cfg st \<Longrightarrow> ctl_inv cfg (smart_scheduling env cfg now st)"
proof -
  assume g: "ctl_inv cfg st"
  have "ctl_inv cfg (snd (smart_scheduling_body env cfg now st))"
  proof (cases "predict_energy_consumption env now 24 st")
    case (Pair a st1)
    from g have "ctl_inv cfg (snd (predict_energy_consumption env now 24 st))"
      by (rule ctl_predict)
    with Pair have "ctl_inv cfg st1" by simp
    with Pair show ?thesis
      by (auto simp: smart_scheduling_body_def intro: ctl_schedule_loop
            split: option.splits sum.splits)
  qed
  then show ?thesis
    by (cases "smart_scheduling_body env cfg now st")
       (auto simp: smart_scheduling_def intro: ctl_logger split: option.splits)
qed

lemma ctl_handle_energy_anomaly:
  "topic_alerts cfg \<noteq> topic_device_control cfg \<Longrightarrow> ctl_inv cfg st
   \<Longrightarrow> ctl_inv cfg (handle_energy_anomaly env cfg now d p a st)"
  by (simp add: ctl_inv_def on_topic_def handle_energy_anomaly_def mqtt_publish_def logger_def
        undefined_method_def Let_def split: option.splits)

lemma ctl_detect_energy_anomalies:
  "topic_alerts cfg \<noteq> topic_device_control cfg \<Longrightarrow> ctl_inv cfg st
   \<Longrightarrow> ctl_inv cfg (detect_energy_anomalies env cfg now d p st)"
proof -
  assume t: "topic_alerts cfg \<noteq> topic_device_control cfg" and g: "ctl_inv cfg st"
  have "ctl_inv cfg (snd (detect_energy_anomalies_body env cfg now d p st))"
    using g t
    by (auto simp: detect_energy_anomalies_body_def Let_def
          intro: ctl_handle_energy_anomaly split: option.splits sum.splits)
  then show ?thesis
    by (cases "detect_energy_anomalies_body env cfg now d p st")
       (auto simp: detect_energy_anomalies_def intro: ctl_logger split: option.splits)
qed

lemma ctl_check_optimization_triggers:
  "ctl_inv cfg st \<Longrightarrow> ctl_inv cfg (snd (check_optimization_triggers env cfg now st))"
  by (auto simp: check_optimization_triggers_def Let_def
        intro: ctl_optimize_load_balancing ctl_optimize_cost_efficiency
        split: sum.splits)

lemma ctl_process_energy_reading:
  assumes t: "topic_alerts cfg \<noteq> topic_device_control cfg" and g: "ctl_inv cfg st"
  shows "ctl_inv cfg (process_energy_reading env cfg now data st)"
proof -
  have "ctl_inv cfg (snd (process_energy_reading_body env cfg now data st))"
  proof (cases "db_fault env ''energy_readings''")
    case (Some e)
    then show ?thesis using g
      by (simp add: process_energy_reading_body_def db_insert_def Let_def)
  next
    case None
    define st3 where "st3 =
      st\<lparr>db := db st @ [EnergyReadingRow (r_timestamp (stored_reading now data)) (m_device_id data)
                            (r_power (stored_reading now data)) (r_voltage (stored_reading now data))
                            (r_current (stored_reading now data))],
         current_readings := AList.update (m_device_id data) (stored_reading now data) (current_readings st),
         consumption_history := deque_append 1000
            \<lparr>h_timestamp = r_timestamp (stored_reading now data), h_device_id = m_device_id data,
             h_power = r_power (stored_reading now data)\<rparr> (consumption_history st)\<rparr>"
    define st4 where "st4 = detect_energy_anomalies env cfg now (m_device_id data)
                              (r_power (stored_reading now data)) st3"
    have "ctl_inv cfg st3" using g by (simp add: ctl_inv_def st3_def)
    then have g4: "ctl_inv cfg st4"
      unfolding st4_def by (rule ctl_detect_energy_anomalies [OF t])
    have body: "process_energy_reading_body env cfg now data st =
        (if auto_optimization_enabled st4 then check_optimization_triggers env cfg now st4
         else (None, st4))"
      using None
      by (simp add: process_energy_reading_body_def db_insert_def Let_def st3_def st4_def
            stored_reading_def)
    show ?thesis
      unfolding body using g4 by (simp add: ctl_check_optimization_triggers)
  qed
  then show ?thesis
    by (cases "process_energy_reading_body env cfg now data st")
       (auto simp: process_energy_reading_def intro: ctl_logger split: option.splits)
qed

lemma ctl_occupancy_loop:
  "ctl_inv cfg st \<Longrightarrow> ctl_inv cfg (snd (occupancy_loop env cfg now occ b ds st))"
proof (induction ds arbitrary: st b)
  case Nil
  then show ?case by simp
next
  case (Cons d ds)
  show ?case
    using Cons.prems
    by (simp add: Let_def Cons.IH ctl_log_optimization ctl_control_device split: sum.splits)
qed

lemma ctl_optimize_based_on_occupancy:
  "ctl_inv cfg st \<Longrightarrow> ctl_inv cfg (optimize_based_on_occupancy env cfg now r st)"
proof -
  assume g: "ctl_inv cfg st"
  let ?occ = "map_of (occupancy_sensors st) r"
  let ?b = "((case ?occ of None \<Rightarrow> False | Some x \<Rightarrow> motion_detected x)
             \<or> (case ?occ of None \<Rightarrow> 0 | Some x \<Rightarrow> occupancy_count x) > 0)"
  have "ctl_inv cfg (snd (occupancy_loop env cfg now ?occ ?b (get_devices_in_room cfg r) st))"
    using g by (rule ctl_occupancy_loop)
  then show ?thesis
    by (cases "occupancy_loop env cfg now ?occ ?b (get_devices_in_room cfg r) st")
       (auto simp: optimize_based_on_occupancy_def Let_def intro: ctl_logger split: option.splits)
qed

lemma ctl_process_occupancy_data:
  "ctl_inv cfg st \<Longrightarrow> ctl_inv cfg (process_occupancy_data env cfg now data st)"
proof -
  assume g: "ctl_inv cfg st"
  define st1 where "st1 =
    st\<lparr>occupancy_sensors :=
         AList.update (m_room data)
           \<lparr>occupancy_count = (case m_occupancy_count data of None \<Rightarrow> 0 | Some x \<Rightarrow> x),
            motion_detected = (case m_motion_detected data of None \<Rightarrow> False | Some x \<Rightarrow> x),
            temperature = (case m_temperature data of None \<Rightarrow> 0 | Some x \<Rightarrow> x),
            o_timestamp = now\<rparr>
           (occupancy_sensors st)\<rparr>"
  have g1: "ctl_inv cfg st1" using g by (simp add: ctl_inv_def st1_def)
  show ?thesis
  proof (cases "db_fault env ''occupancy_data''")
    case (Some e)
    have "process_occupancy_data env cfg now data st =
            logger (Log ERROR ''Error processing occupancy data: {}'' [AErr e]) st1"
      using Some by (simp add: process_occupancy_data_def db_insert_def Let_def st1_def)
    then show ?thesis using g1 by (simp add: ctl_logger)
  next
    case None
    define row where "row = OccupancyRow (m_room data)
        (case m_occupancy_count data of None \<Rightarrow> 0 | Some x \<Rightarrow> x)
        (case m_motion_detected data of None \<Rightarrow> False | Some x \<Rightarrow> x)
        (case m_temperature data of None \<Rightarrow> 0 | Some x \<Rightarrow> x)"
    have eq: "process_occupancy_data env cfg now data st =
            optimize_based_on_occupancy env cfg now (m_room data) (st1\<lparr>db := db st1 @ [row]\<rparr>)"
      using None by (simp add: process_occupancy_data_def db_insert_def Let_def st1_def row_def)
    have "ctl_inv cfg (st1\<lparr>db := db st1 @ [row]\<rparr>)" using g1 by (simp add: ctl_inv_def)
    then show ?thesis unfolding eq by (rule ctl_optimize_based_on_occupancy)
  qed
qed

lemma ctl_run_optimization_cycle:
  "ctl_inv cfg st \<Longrightarrow> ctl_inv cfg (run_optimization_cycle env cfg now st)"
  by (simp add: run_optimization_cycle_def run_optimization_cycle_body_def Let_def
        ctl_logger ctl_smart_scheduling ctl_optimize_cost_efficiency
        ctl_optimize_load_balancing)

text \<open>
  C9, as stated, fails on the name of the first field: the message \<open>control_device\<close>
  publishes has the keys \<open>device_id\<close>, \<open>command\<close>, \<open>timestamp\<close>, \<open>source\<close>, and no
  key \<open>entity_id\<close>.
\<close>

theorem control_message_keys:
  "map fst (snd (hd (outbox (control_device no_faults default_config 0 ''hall_light'' False
                              init_state))))
     = [''device_id'', ''command'', ''timestamp'', ''source'']
   \<and> map_of (snd (hd (outbox (control_device no_faults default_config 0 ''hall_light'' False
                                 init_state)))) ''entity_id'' = None"
  by (simp add: control_device_def mqtt_publish_def no_faults_def logger_def init_state_def
        default_config_def command_data_def)

text \<open>
  C9, amended. Every message on the device-control topic has exactly the fields
  \<open>device_id\<close>, \<open>command\<close>, \<open>timestamp\<close> and \<open>source\<close>, with \<open>command\<close> either
  \<open>on\<close> or \<open>off\<close>: when the alert topic is another topic, handling an energy
  reading, handling an occupancy message, an optimization cycle and \<open>control_device\<close>
  itself all keep this true of the outbox.
\<close>

theorem control_topic_messages_have_command_shape:
  "topic_alerts cfg \<noteq> topic_device_control cfg \<Longrightarrow> ctl_inv cfg st \<Longrightarrow>
     ctl_inv cfg (process_energy_reading env cfg now data st)
   \<and> ctl_inv cfg (process_occupancy_data env cfg now occ st)
   \<and> ctl_inv cfg (run_optimization_cycle env cfg now st)
   \<and> ctl_inv cfg (control_device env cfg now d b st)"
  by (simp add: ctl_process_energy_reading ctl_process_occupancy_data
        ctl_run_optimization_cycle ctl_control_device)

theorem control_topic_messages_have_command_shape_witness:
  "topic_alerts default_config \<noteq> topic_device_control default_config
   \<and> ctl_inv default_config init_state
   \<and> ctl_inv default_config
        (process_energy_reading no_faults default_config 0
           (reading_message 0 ''hall_fan'' 75) init_state)
   \<and> ctl_inv default_config
        (process_occupancy_data no_faults default_config 0 hall_empty init_state)
   \<and> ctl_inv default_config (run_optimization_cycle no_faults default_config 0 init_state)
   \<and> ctl_inv default_config
        (control_device no_faults default_config 0 ''hall_light'' False init_state)"
proof -
  have t: "topic_alerts default_config \<noteq> topic_device_control default_config"
    by (simp add: default_config_def)
  have i: "ctl_inv default_config init_state"
    by (simp add: ctl_inv_def on_topic_def init_state_def)
  show ?thesis
    using t i
      control_topic_messages_have_command_shape [OF t i, of no_faults 0
        "reading_message 0 ''hall_fan'' 75" hall_empty "''hall_light''" False]
    by simp
qed

section \<open>Load shedding\<close>

text \<open>
  The order in which the loop of \<open>optimize_load_balancing\<close> would visit the devices
  of the example: B (priority 3), C (priority 2), A (priority 1).
\<close>

lemma load_shedding_order:
  "map dev_id (sort_key (\<lambda>x. - priority x)
       [mk_device ''A'' 500 ''hall'' 1, mk_device ''B'' 200 ''hall'' 3,
        mk_device ''C'' 100 ''hall'' 2]) = [''B'', ''C'', ''A'']"
  by (simp add: mk_device_def)

text \<open>
  C2. On the example (aggregate 1000 W, threshold 1000 W) \<open>optimize_load_balancing\<close>
  logs the high load and then calls \<open>get_non_essential_devices\<close>, which is defined
  nowhere: the \<open>AttributeError\<close> is caught and logged, no device is turned off and
  nothing is published.
\<close>

theorem load_shedding_example_sheds_nothing:
  "optimize_load_balancing no_faults cfg_load_shedding (time_hms 12 0 0 0) st_load_shedding
   = st_load_shedding\<lparr>log :=
       [Log INFO ''High load detected: {}W, initiating load balancing'' [ANum 1000],
        Log ERROR ''Load balancing optimization error: {}''
          [AErr (AttributeError ''get_non_essential_devices'')]]\<rparr>
   \<and> total_power st_load_shedding = 1000
   \<and> outbox (optimize_load_balancing no_faults cfg_load_shedding (time_hms 12 0 0 0) st_load_shedding) = []"
  by (simp add: optimize_load_balancing_def optimize_load_balancing_body_def total_power_def
        cfg_load_shedding_def st_load_shedding_def float_values prim_defs ex_defs Let_def)

subsection \<open>The rules of the cycle only write to the log\<close>

text \<open>
  \<open>optimize_load_balancing\<close>, \<open>optimize_cost_efficiency\<close> and \<open>smart_scheduling\<close>
  reach \<open>control_device\<close> and \<open>log_optimization\<close> only after a call of a method
  that is defined nowhere, so all they change is the log; what each adds to the log
  does not depend on the log it finds.
\<close>

lemma state_log_id: "st\<lparr>log := log st @ []\<rparr> = st" "st\<lparr>log := log st\<rparr> = st"
  by simp_all

lemma total_power_log [simp]: "total_power (st\<lparr>log := l\<rparr>) = total_power st"
  by (simp add: total_power_def)




lemma energy_readings_log [simp]: "energy_readings (st\<lparr>log := l\<rparr>) = energy_readings st"
  by (simp add: energy_readings_def)

lemma predict_body_log [simp]:
  "predict_energy_consumption_body env now h (st\<lparr>log := l\<rparr>)
     = predict_energy_consumption_body env now h st"
  by (simp add: predict_energy_consumption_body_def split: option.splits)













subsection \<open>The thresholds\<close>





section \<open>Occupancy\<close>

lemma outbox_control_device:
  "outbox (control_device env cfg now d b st) =
     outbox st @ (case mqtt_fault env (topic_device_control cfg) (command_data now d b) of
                    None \<Rightarrow> [(topic_device_control cfg, command_data now d b)]
                  | Some e \<Rightarrow> [])"
  by (simp add: control_device_def mqtt_publish_def logger_def split: option.splits)

lemma outbox_log_optimization: "outbox (log_optimization env a b c st) = outbox st"
  by (simp add: log_optimization_def db_insert_def logger_def split: option.splits)

lemma occupancy_loop_lights:
  assumes np: "is_peak_hour cfg now = Inr False"
  shows "\<exists>new. outbox (snd (occupancy_loop env cfg now occ False ds st)) = outbox st @ new
           \<and> (\<forall>d\<in>set ds. endswith (dev_id d) ''_light''
                 \<and> mqtt_fault env (topic_device_control cfg) (command_data now (dev_id d) False) = None
               \<longrightarrow> (topic_device_control cfg, command_data now (dev_id d) False) \<in> set new)"
proof (induction ds arbitrary: st)
  case Nil
  show ?case by simp
next
  case (Cons d ds)
  define off where "off = log_optimization env ''occupancy_based'' (dev_id d) ''light_auto_off''
                            (control_device env cfg now (dev_id d) False st)"
  define foff where "foff = log_optimization env ''occupancy_based'' (dev_id d) ''fan_auto_off''
                            (control_device env cfg now (dev_id d) False st)"
  define st' where "st' =
     (if endswith (dev_id d) ''_light'' then off
      else if endswith (dev_id d) ''_fan''
              \<and> timedelta_seconds now (case occ of None \<Rightarrow> now | Some x \<Rightarrow> o_timestamp x) > 600
           then foff else st)"
  have step: "occupancy_loop env cfg now occ False (d # ds) st
                = occupancy_loop env cfg now occ False ds st'"
    using np by (simp add: st'_def off_def foff_def Let_def)
  have ob: "\<exists>h. outbox st' = outbox st @ h
              \<and> (endswith (dev_id d) ''_light''
                   \<and> mqtt_fault env (topic_device_control cfg) (command_data now (dev_id d) False) = None
                  \<longrightarrow> (topic_device_control cfg, command_data now (dev_id d) False) \<in> set h)"
    by (simp add: st'_def off_def foff_def outbox_control_device outbox_log_optimization
          split: option.splits)
  then obtain h where h: "outbox st' = outbox st @ h"
    and hd: "endswith (dev_id d) ''_light''
               \<and> mqtt_fault env (topic_device_control cfg) (command_data now (dev_id d) False) = None
             \<longrightarrow> (topic_device_control cfg, command_data now (dev_id d) False) \<in> set h"
    by blast
  from Cons.IH [of st'] obtain new where
      n: "outbox (snd (occupancy_loop env cfg now occ False ds st')) = outbox st' @ new"
    and nd: "\<forall>d\<in>set ds. endswith (dev_id d) ''_light''
                 \<and> mqtt_fault env (topic_device_control cfg) (command_data now (dev_id d) False) = None
               \<longrightarrow> (topic_device_control cfg, command_data now (dev_id d) False) \<in> set new"
    by blast
  have "outbox (snd (occupancy_loop env cfg now occ False (d # ds) st)) = outbox st @ (h @ new)"
    using step n h by simp
  moreover have "\<forall>x\<in>set (d # ds). endswith (dev_id x) ''_light''
                 \<and> mqtt_fault env (topic_device_control cfg) (command_data now (dev_id x) False) = None
               \<longrightarrow> (topic_device_control cfg, command_data now (dev_id x) False) \<in> set (h @ new)"
    using hd nd by auto
  ultimately show ?case by blast
qed

lemma occupancy_loop_no_error:
  "is_peak_hour cfg now = Inr False \<Longrightarrow> fst (occupancy_loop env cfg now occ b ds st) = None"
  by (induction ds arbitrary: st b) (simp_all add: Let_def)

text \<open>
  C3, as stated, fails. Two messages of the empty hall one second apart, outside peak
  hours: the off command for the hall light is published both times.
\<close>

theorem occupancy_auto_off_fires_twice_within_a_second:
  "outbox (process_occupancy_data no_faults default_config (time_hms 10 0 1 0) hall_empty
      (process_occupancy_data no_faults default_config (time_hms 10 0 0 0) hall_empty init_state))
   = [(''energy/control'', command_data (time_hms 10 0 0 0) ''hall_light'' False),
      (''energy/control'', command_data (time_hms 10 0 1 0) ''hall_light'' False)]"
  by (simp add: process_occupancy_data_def optimize_based_on_occupancy_def
        get_devices_in_room_def endswith_def timedelta_seconds_def hall_empty_def
        prim_defs ex_defs time_defs Let_def)

text \<open>
  C3, amended. The occupancy auto-off rule has no cooldown. Every occupancy message
  that reports a room as empty (no motion, no occupant), outside peak hours, publishes
  an off command for every light of the room, whatever happened before, provided the
  insert into \<open>occupancy_data\<close> and the publish of that command do not raise.
\<close>

theorem occupancy_auto_off_fires_on_every_event:
  assumes np: "is_peak_hour cfg now = Inr False"
    and db: "db_fault env ''occupancy_data'' = None"
    and nomotion: "m_motion_detected data \<noteq> Some True"
    and nobody: "(case m_occupancy_count data of None \<Rightarrow> 0 | Some c \<Rightarrow> c) \<le> 0"
    and dev: "device \<in> set (get_devices_in_room cfg (m_room data))"
    and light: "endswith (dev_id device) ''_light''"
    and tx: "mqtt_fault env (topic_device_control cfg) (command_data now (dev_id device) False) = None"
  shows "\<exists>new. outbox (process_occupancy_data env cfg now data st) = outbox st @ new
           \<and> (topic_device_control cfg, command_data now (dev_id device) False) \<in> set new"
proof -
  define rec where "rec =
     \<lparr>occupancy_count = (case m_occupancy_count data of None \<Rightarrow> 0 | Some x \<Rightarrow> x),
      motion_detected = (case m_motion_detected data of None \<Rightarrow> False | Some x \<Rightarrow> x),
      temperature = (case m_temperature data of None \<Rightarrow> 0 | Some x \<Rightarrow> x),
      o_timestamp = now\<rparr>"
  define st2 where "st2 =
    st\<lparr>occupancy_sensors := AList.update (m_room data) rec (occupancy_sensors st),
       db := db st @ [OccupancyRow (m_room data) (occupancy_count rec) (motion_detected rec)
                        (temperature rec)]\<rparr>"
  have eq: "process_occupancy_data env cfg now data st =
            optimize_based_on_occupancy env cfg now (m_room data) st2"
    using db by (simp add: process_occupancy_data_def db_insert_def Let_def st2_def rec_def)
  have occ: "map_of (occupancy_sensors st2) (m_room data) = Some rec"
    by (simp add: st2_def update_conv')
  have nm: "motion_detected rec = False"
    using nomotion by (cases "m_motion_detected data") (auto simp: rec_def)
  have nc: "\<not> occupancy_count rec > 0"
    using nobody by (simp add: rec_def)
  have run: "optimize_based_on_occupancy env cfg now (m_room data) st2 =
          snd (occupancy_loop env cfg now (Some rec) False (get_devices_in_room cfg (m_room data)) st2)"
    using occupancy_loop_no_error [OF np, of env "Some rec" False
            "get_devices_in_room cfg (m_room data)" st2]
    by (cases "occupancy_loop env cfg now (Some rec) False (get_devices_in_room cfg (m_room data)) st2")
       (simp add: optimize_based_on_occupancy_def occ nm nc Let_def)
  from occupancy_loop_lights [OF np, of env "Some rec" "get_devices_in_room cfg (m_room data)" st2]
  obtain new where
      n: "outbox (snd (occupancy_loop env cfg now (Some rec) False
                         (get_devices_in_room cfg (m_room data)) st2)) = outbox st2 @ new"
    and nd: "\<forall>d\<in>set (get_devices_in_room cfg (m_room data)). endswith (dev_id d) ''_light''
                 \<and> mqtt_fault env (topic_device_control cfg) (command_data now (dev_id d) False) = None
               \<longrightarrow> (topic_device_control cfg, command_data now (dev_id d) False) \<in> set new"
    by blast
  have "outbox st2 = outbox st" by (simp add: st2_def)
  with n eq run have "outbox (process_occupancy_data env cfg now data st) = outbox st @ new"
    by simp
  moreover have "(topic_device_control cfg, command_data now (dev_id device) False) \<in> set new"
    using nd dev light tx by blast
  ultimately show ?thesis by blast
qed

theorem occupancy_auto_off_fires_on_every_event_witness:
  "is_peak_hour default_config (time_hms 10 0 0 0) = Inr False
   \<and> db_fault no_faults ''occupancy_data'' = None
   \<and> m_motion_detected hall_empty \<noteq> Some True
   \<and> (case m_occupancy_count hall_empty of None \<Rightarrow> 0 | Some c \<Rightarrow> c) \<le> 0
   \<and> mk_device ''hall_light'' 60 ''hall'' 3
        \<in> set (get_devices_in_room default_config (m_room hall_empty))
   \<and> endswith (dev_id (mk_device ''hall_light'' 60 ''hall'' 3)) ''_light''
   \<and> mqtt_fault no_faults (topic_device_control default_config)
        (command_data (time_hms 10 0 0 0) (dev_id (mk_device ''hall_light'' 60 ''hall'' 3)) False)
        = None
   \<and> (\<exists>new. outbox (process_occupancy_data no_faults default_config (time_hms 10 0 0 0)
                       hall_empty init_state) = outbox init_state @ new
          \<and> (topic_device_control default_config,
               command_data (time_hms 10 0 0 0) (dev_id (mk_device ''hall_light'' 60 ''hall'' 3))
                 False) \<in> set new)"
proof -
  have np: "is_peak_hour default_config (time_hms 10 0 0 0) = Inr False"
    by (simp add: is_peak_hour_def default_config_def strptime_HM_def digit_val_def
          time_hms_def dt_time_def)
  have db: "db_fault no_faults ''occupancy_data'' = None"
    by (simp add: no_faults_def)
  have nm: "m_motion_detected hall_empty \<noteq> Some True"
    by (simp add: hall_empty_def)
  have nc: "(case m_occupancy_count hall_empty of None \<Rightarrow> 0 | Some c \<Rightarrow> c) \<le> 0"
    by (simp add: hall_empty_def)
  have dev: "mk_device ''hall_light'' 60 ''hall'' 3
        \<in> set (get_devices_in_room default_config (m_room hall_empty))"
    by (simp add: get_devices_in_room_def default_config_def hall_empty_def mk_device_def)
  have li: "endswith (dev_id (mk_device ''hall_light'' 60 ''hall'' 3)) ''_light''"
    by (simp add: endswith_def mk_device_def)
  have tx: "mqtt_fault no_faults (topic_device_control default_config)
        (command_data (time_hms 10 0 0 0) (dev_id (mk_device ''hall_light'' 60 ''hall'' 3)) False)
        = None"
    by (simp add: no_faults_def)
  show ?thesis
    using np db nm nc dev li tx
      occupancy_auto_off_fires_on_every_event [OF np db nm nc dev li tx, of init_state]
    by simp
qed

section \<open>The optimization cycle\<close>


















end
